theory Spec2Isabelle
  imports Main "HOL-Library.AList"
begin

section \<open>JavaScript values and errors\<close>

text \<open>
  The values that reach \<open>urlJoin(...args: any[])\<close>: strings, \<open>undefined\<close>, \<open>null\<close>,
  booleans and arrays of such values. Numbers and plain objects are left out of the model;
  no property below needs their string conversion.
\<close>

datatype jsval = JUndefined | JNull | JBool bool | JStr string | JArr "jsval list"

datatype js_error = TypeError string | SyntaxError string | Error string

text \<open>The \<open>typeof\<close> operator: \<open>null\<close> and arrays are both \<open>"object"\<close>.\<close>

fun typeof :: "jsval \<Rightarrow> string" where
  "typeof JUndefined = ''undefined''"
| "typeof JNull = ''object''"
| "typeof (JBool b) = ''boolean''"
| "typeof (JStr s) = ''string''"
| "typeof (JArr vs) = ''object''"

text \<open>
  String conversion, as \<open>"..." + v\<close> performs it. An array converts as \<open>join(",")\<close>,
  where an \<open>undefined\<close> or \<open>null\<close> element gives the empty string.
\<close>

fun toString :: "jsval \<Rightarrow> string" and join_elements :: "jsval list \<Rightarrow> string" where
  "toString JUndefined = ''undefined''"
| "toString JNull = ''null''"
| "toString (JBool b) = (if b then ''true'' else ''false'')"
| "toString (JStr s) = s"
| "toString (JArr vs) = join_elements vs"
| "join_elements [] = []"
| "join_elements (JUndefined # vs) = (if vs = [] then [] else '','' @ join_elements vs)"
| "join_elements (JNull # vs) = (if vs = [] then [] else '','' @ join_elements vs)"
| "join_elements (v # vs) = toString v @ (if vs = [] then [] else '','' @ join_elements vs)"

section \<open>String operations of the URL joiner\<close>

text \<open>\<open>Array.prototype.join\<close> on strings and \<open>String.prototype.split\<close> on one character.\<close>

fun js_join :: "string \<Rightarrow> string list \<Rightarrow> string" where
  "js_join sep [] = []"
| "js_join sep [x] = x"
| "js_join sep (x # y # ys) = x @ sep @ js_join sep (y # ys)"

fun js_split :: "char \<Rightarrow> string \<Rightarrow> string list" where
  "js_split c [] = [[]]"
| "js_split c (x # xs) =
     (if x = c then [] # js_split c xs
      else (case js_split c xs of [] \<Rightarrow> [[x]] | p # ps \<Rightarrow> (x # p) # ps))"

text \<open>The character class \<open>[^/:]\<close>.\<close>

definition not_sep :: "char \<Rightarrow> bool" where
  "not_sep c = (c \<noteq> CHR ''/'' \<and> c \<noteq> CHR '':'')"

definition is_slash :: "char \<Rightarrow> bool" where
  "is_slash c = (c = CHR ''/'')"

text \<open>
  \<open>s.match(/^[^/:]+:\/*$/)\<close>: a non-empty run of characters other than \<open>/\<close> and \<open>:\<close>,
  a colon, and then only slashes up to the end of the string.
\<close>

definition is_plain_protocol :: "string \<Rightarrow> bool" where
  "is_plain_protocol s =
     (if takeWhile not_sep s = [] then False
      else (case dropWhile not_sep s of
              [] \<Rightarrow> False
            | c # r \<Rightarrow> c = CHR '':'' \<and> list_all is_slash r))"

text \<open>\<open>s.match(/^file:\/\/\//)\<close>.\<close>

definition is_file_url :: "string \<Rightarrow> bool" where
  "is_file_url s = (take 8 s = ''file:///'')"

text \<open>
  \<open>s.replace(/^([^/:]+):\/*/, "$1" + sep)\<close>, where \<open>sep\<close> is \<open>":///"\<close> or \<open>"://"\<close>:
  the scheme is kept and the colon with all the slashes after it is replaced by \<open>sep\<close>.
  A string that does not start with a scheme is returned as it is.
\<close>

definition replace_protocol :: "string \<Rightarrow> string \<Rightarrow> string" where
  "replace_protocol sep s =
     (if takeWhile not_sep s = [] then s
      else (case dropWhile not_sep s of
              [] \<Rightarrow> s
            | c # r \<Rightarrow> if c = CHR '':'' then takeWhile not_sep s @ sep @ dropWhile is_slash r
                       else s))"

text \<open>\<open>component.replace(/^[\/]+/, "")\<close>.\<close>

definition strip_leading :: "string \<Rightarrow> string" where
  "strip_leading s = dropWhile is_slash s"

text \<open>\<open>component.replace(/[\/]+$/, "")\<close>.\<close>

definition strip_trailing :: "string \<Rightarrow> string" where
  "strip_trailing s = rev (dropWhile is_slash (rev s))"

text \<open>\<open>component.replace(/[\/]+$/, "/")\<close>: a run of slashes at the end becomes one slash.\<close>

definition collapse_trailing :: "string \<Rightarrow> string" where
  "collapse_trailing s =
     (if s \<noteq> [] \<and> is_slash (last s) then strip_trailing s @ ''/'' else s)"

text \<open>
  \<open>str.replace(/\/(\?|&|#[^!])/g, "$1")\<close>: scanning from the left, a slash followed by
  \<open>?\<close>, by \<open>&\<close>, or by \<open>#\<close> and one more character other than \<open>!\<close> is dropped;
  the scan goes on after the whole match.
\<close>

fun remove_slash_before_params :: "string \<Rightarrow> string" where
  "remove_slash_before_params [] = []"
| "remove_slash_before_params [c] = [c]"
| "remove_slash_before_params [c, d] =
     (if c = CHR ''/'' \<and> (d = CHR ''?'' \<or> d = CHR ''&'') then [d] else [c, d])"
| "remove_slash_before_params (c # d # e # r) =
     (if c = CHR ''/'' \<and> (d = CHR ''?'' \<or> d = CHR ''&'')
        then d # remove_slash_before_params (e # r)
      else if c = CHR ''/'' \<and> d = CHR ''#'' \<and> e \<noteq> CHR ''!''
        then d # e # remove_slash_before_params r
      else c # remove_slash_before_params (d # e # r))"

text \<open>
  \<open>parts = str.split("?"); parts.shift() + (parts.length > 0 ? "?" : "") + parts.join("&")\<close>.
  \<open>split\<close> never returns an empty array; \<open>shift\<close> on one would give \<open>undefined\<close>.
\<close>

definition merge_query :: "string \<Rightarrow> string" where
  "merge_query str =
     (case js_split CHR ''?'' str of
        [] \<Rightarrow> ''undefined''
      | p # parts \<Rightarrow> p @ (if length parts > 0 then ''?'' else []) @ js_join ''&'' parts)"

section \<open>The URL joiner\<close>

text \<open>
  Lines 26-29 of \<open>normalize\<close>: a first segment that is a plain protocol is removed from the
  array and prepended to the next element, converting that element to a string.
  The head of the array is passed on its own; it is known to be a string here.
\<close>

fun merge_protocol :: "string \<Rightarrow> jsval list \<Rightarrow> string \<times> jsval list" where
  "merge_protocol first [] = (first, [])"
| "merge_protocol first (v # vs) =
     (if is_plain_protocol first then (first @ toString v, vs) else (first, v # vs))"

text \<open>Lines 31-35: the protocol separator of the first element is normalised.\<close>

definition fix_protocol :: "string \<Rightarrow> string" where
  "fix_protocol s =
     (if is_file_url s then replace_protocol '':///'' s else replace_protocol ''://'' s)"

text \<open>The body of the loop for a non-empty string component at index \<open>i\<close> of \<open>n\<close>.\<close>

definition trim_component :: "nat \<Rightarrow> nat \<Rightarrow> string \<Rightarrow> string" where
  "trim_component n i component =
     (let c1 = (if i > 0 then strip_leading component else component)
      in if i < n - 1 then strip_trailing c1 else collapse_trailing c1)"

text \<open>
  The \<open>for\<close> loop (lines 37-58) over the rest of the array from index \<open>i\<close>; \<open>n\<close> is
  \<open>strArray.length\<close>. A component that is not a string throws.
\<close>

fun normalize_loop :: "nat \<Rightarrow> nat \<Rightarrow> jsval list \<Rightarrow> string list \<Rightarrow> js_error + string list" where
  "normalize_loop n i [] resultArray = Inr resultArray"
| "normalize_loop n i (JStr component # cs) resultArray =
     (if component = [] then normalize_loop n (i + 1) cs resultArray
      else normalize_loop n (i + 1) cs (resultArray @ [trim_component n i component]))"
| "normalize_loop n i (c # cs) resultArray =
     Inl (TypeError (''Url must be a string. Received '' @ toString c))"

text \<open>Lines 60-70: join, drop the slash before parameters, merge the query marks.\<close>

definition finish :: "string list \<Rightarrow> string" where
  "finish resultArray = merge_query (remove_slash_before_params (js_join ''/'' resultArray))"

text \<open>
  \<open>normalize(strArray)\<close>, here \<open>normalize_url\<close>. The function changes \<open>strArray\<close> in
  place (\<open>shift\<close> and the assignments to \<open>strArray[0]\<close>), so the model returns the
  contents of the array after the call together with the outcome.
\<close>

fun normalize_url :: "jsval list \<Rightarrow> jsval list \<times> (js_error + string)" where
  "normalize_url [] = ([], Inr [])"
| "normalize_url (JStr s # rest) =
     (let (first, tail) = merge_protocol s rest;
          strArray = JStr (fix_protocol first) # tail
      in (strArray, map_sum id finish (normalize_loop (length strArray) 0 strArray [])))"
| "normalize_url (v # rest) =
     (v # rest, Inl (TypeError (''Url must be a string. Received '' @ toString v)))"

text \<open>
  \<open>urlJoin(...args)\<close>. When \<open>typeof args[0]\<close> is \<open>"object"\<close> the first argument itself is
  normalised (and changed in place when it is an array); otherwise a copy of the
  arguments is. The result is the argument list as the caller sees it afterwards and
  the outcome. \<open>null\<close> also has type \<open>"object"\<close>: reading its \<open>length\<close> throws.
\<close>

definition arg0 :: "jsval list \<Rightarrow> jsval" where
  "arg0 args = (case args of [] \<Rightarrow> JUndefined | a # _ \<Rightarrow> a)"

definition urlJoin :: "jsval list \<Rightarrow> jsval list \<times> (js_error + string)" where
  "urlJoin args =
     (if typeof (arg0 args) = ''object'' then
        (case arg0 args of
           JArr input \<Rightarrow> (JArr (fst (normalize_url input)) # tl args, snd (normalize_url input))
         | _ \<Rightarrow> (args, Inl (TypeError ''Cannot read properties of null (reading 'length')'')))
      else (args, snd (normalize_url args)))"

text \<open>The string a call returns, for the callers that pass strings.\<close>

definition urlJoin_strings :: "string list \<Rightarrow> js_error + string" where
  "urlJoin_strings ss = snd (urlJoin (map JStr ss))"

section \<open>The API client\<close>

text \<open>
  \<open>ClientOptions\<close> has one optional property; \<open>None\<close> stands for a property that is
  not set. The process environment is a partial map from variable names to values,
  read by \<open>Deno.env.get\<close>.
\<close>

record ClientOptions =
  endpoint :: "string option"

record Client =
  accessToken :: string
  orgId :: string
  clientOptions :: ClientOptions

type_synonym env = "string \<rightharpoonup> string"

text \<open>\<open>a ?? b\<close>: the right operand is used only when the left one is \<open>undefined\<close>.\<close>

definition nullish :: "'a option \<Rightarrow> 'a option \<Rightarrow> 'a option" where
  "nullish a b = (case a of None \<Rightarrow> b | Some x \<Rightarrow> Some x)"

text \<open>\<open>Object.assign({endpoint: "https://api.deno.com/v1"}, options)\<close>.\<close>

definition assign_options :: "ClientOptions option \<Rightarrow> ClientOptions" where
  "assign_options options =
     (case options of
        None \<Rightarrow> \<lparr>endpoint = Some ''https://api.deno.com/v1''\<rparr>
      | Some opts \<Rightarrow>
          (case endpoint opts of
             None \<Rightarrow> \<lparr>endpoint = Some ''https://api.deno.com/v1''\<rparr>
           | Some e \<Rightarrow> \<lparr>endpoint = Some e\<rparr>))"

text \<open>
  The constructor. \<open>!at\<close> holds for \<open>undefined\<close> and for the empty string. The access
  token is checked before the organisation id is read.
\<close>

definition new_Client ::
  "string option \<Rightarrow> string option \<Rightarrow> ClientOptions option \<Rightarrow> env \<Rightarrow> js_error + Client" where
  "new_Client accessToken_arg orgId_arg options environment =
     (case nullish accessToken_arg (environment ''DEPLOY_ACCESS_TOKEN'') of
        None \<Rightarrow> Inl (Error
          ''A Deno Deploy access token is required (or set DEPLOY_ACCESS_TOKEN env variable).'')
      | Some at \<Rightarrow>
          if at = [] then Inl (Error
            ''A Deno Deploy access token is required (or set DEPLOY_ACCESS_TOKEN env variable).'')
          else
            (case nullish orgId_arg (environment ''DEPLOY_ORG_ID'') of
               None \<Rightarrow> Inl (Error
                 ''Deno Subhosting org ID is required (or set DEPLOY_ORG_ID env variable).'')
             | Some org \<Rightarrow>
                 if org = [] then Inl (Error
                   ''Deno Subhosting org ID is required (or set DEPLOY_ORG_ID env variable).'')
                 else Inr \<lparr>accessToken = at, orgId = org,
                            clientOptions = assign_options options\<rparr>))"

definition orgUrl :: "Client \<Rightarrow> string" where
  "orgUrl c = ''/organizations/'' @ orgId c"

text \<open>
  The \<open>RequestInit\<close> properties the client uses (\<open>http_method\<close> is its \<open>method\<close>
  property); \<open>headers\<close> is an object literal, kept as
  the list of its properties in order. \<open>Object.assign\<close> writes the source's properties
  into the target one after the other: an existing key keeps its place and takes the new
  value, a new key is added at the end.
\<close>

record RequestInit =
  http_method :: "string option"
  headers :: "(string \<times> string) list option"
  body :: "string option"

definition object_assign :: "(string \<times> string) list \<Rightarrow> (string \<times> string) list \<Rightarrow> (string \<times> string) list" where
  "object_assign target source = fold (\<lambda>kv. AList.update (fst kv) (snd kv)) source target"

text \<open>
  The network is outside the program. \<open>Client.fetch\<close> is modelled up to the call of the
  global \<open>fetch\<close> it makes: the URL and the options it passes, or the error thrown
  before the call.
\<close>

record fetch_call =
  url :: string
  init :: RequestInit

definition endpoint_value :: "Client \<Rightarrow> jsval" where
  "endpoint_value c = (case endpoint (clientOptions c) of None \<Rightarrow> JUndefined | Some e \<Rightarrow> JStr e)"

definition fetch :: "Client \<Rightarrow> string \<Rightarrow> RequestInit option \<Rightarrow> js_error + fetch_call" where
  "fetch c u options =
     (case snd (urlJoin [endpoint_value c, JStr u]) of
        Inl e \<Rightarrow> Inl e
      | Inr finalUrl \<Rightarrow>
          (let callerHeaders =
                 (case options of
                    None \<Rightarrow> []
                  | Some opts \<Rightarrow> (case headers opts of None \<Rightarrow> [] | Some h \<Rightarrow> h));
               finalHeaders = object_assign
                 [(''Authorization'', ''Bearer '' @ accessToken c),
                  (''Content-Type'', ''application/json'')] callerHeaders;
               given = (case options of
                          None \<Rightarrow> \<lparr>http_method = None, headers = None, body = None\<rparr>
                        | Some opts \<Rightarrow> opts)
           in Inr \<lparr>url = finalUrl, init = given\<lparr>headers := Some finalHeaders\<rparr>\<rparr>))"

text \<open>\<open>fetchUrl\<close> is \<open>return await this.fetch(url, options)\<close>.\<close>

definition fetchUrl :: "Client \<Rightarrow> string \<Rightarrow> RequestInit option \<Rightarrow> js_error + fetch_call" where
  "fetchUrl c u options = fetch c u options"

text \<open>
  \<open>new URLSearchParams(query).toString()\<close> for a query object with string values: each
  name and value is encoded byte by byte (letters, digits and \<open>*-._\<close> stay, a space
  becomes \<open>+\<close>, every other byte becomes \<open>%XX\<close>), and the pairs are joined with \<open>&\<close>.
\<close>

definition hex_digit :: "nat \<Rightarrow> char" where
  "hex_digit n = ''0123456789ABCDEF'' ! (n mod 16)"

definition unreserved :: "char \<Rightarrow> bool" where
  "unreserved c =
     (let n = (of_char c :: nat)
      in (48 \<le> n \<and> n \<le> 57) \<or> (65 \<le> n \<and> n \<le> 90) \<or> (97 \<le> n \<and> n \<le> 122)
         \<or> c = CHR ''*'' \<or> c = CHR ''-'' \<or> c = CHR ''.'' \<or> c = CHR ''_'')"

definition encode_byte :: "char \<Rightarrow> string" where
  "encode_byte c =
     (if unreserved c then [c]
      else if c = CHR '' '' then ''+''
      else [CHR ''%'', hex_digit (of_char c div 16), hex_digit (of_char c mod 16)])"

definition urlencode :: "string \<Rightarrow> string" where
  "urlencode s = concat (map encode_byte s)"

definition searchParams :: "(string \<times> string) list option \<Rightarrow> string" where
  "searchParams query =
     (case query of
        None \<Rightarrow> []
      | Some kvs \<Rightarrow> js_join ''&'' (map (\<lambda>kv. urlencode (fst kv) @ ''='' @ urlencode (snd kv)) kvs))"

definition GET :: "RequestInit" where
  "GET = \<lparr>http_method = Some ''GET'', headers = None, body = None\<rparr>"

definition listProjects :: "Client \<Rightarrow> (string \<times> string) list option \<Rightarrow> js_error + fetch_call" where
  "listProjects c query = fetch c (orgUrl c @ ''/projects?'' @ searchParams query) (Some GET)"

definition listDeployments ::
  "Client \<Rightarrow> string \<Rightarrow> (string \<times> string) list option \<Rightarrow> js_error + fetch_call" where
  "listDeployments c projectId query =
     fetch c (''/projects/'' @ projectId @ ''/deployments?'' @ searchParams query) (Some GET)"

definition listAppLogs ::
  "Client \<Rightarrow> string \<Rightarrow> (string \<times> string) list option \<Rightarrow> js_error + fetch_call" where
  "listAppLogs c deploymentId query =
     fetch c (''/deployments/'' @ deploymentId @ ''/app_logs?'' @ searchParams query) (Some GET)"

section \<open>The server route for the deployment list\<close>

text \<open>
  The handler of \<open>GET /deployments\<close>, up to the call it makes through the client.
  The browser's request is the list of its decoded query parameters; \<open>c.req.query(name)\<close>
  reads the first value given for a name, and \<open>x || ""\<close> gives the empty string for a
  missing or empty parameter.
\<close>

definition req_query :: "(string \<times> string) list \<Rightarrow> string \<Rightarrow> string option" where
  "req_query params name = map_of params name"

definition route_projectId :: "(string \<times> string) list \<Rightarrow> string" where
  "route_projectId params =
     (case req_query params ''projectId'' of
        None \<Rightarrow> []
      | Some v \<Rightarrow> if v = [] then [] else v)"

definition deployments_route :: "Client \<Rightarrow> (string \<times> string) list \<Rightarrow> js_error + fetch_call" where
  "deployments_route shc params =
     (let projectId = route_projectId params
      in listDeployments shc projectId (Some [(''order'', ''desc'')]))"

text \<open>
  The query component of a URL as it is sent to a server: the text after the first
  \<open>?\<close>, up to the first \<open>#\<close> of the URL (the fragment is not sent).
\<close>

definition url_query :: "string \<Rightarrow> string" where
  "url_query u = drop 1 (dropWhile (\<lambda>c. c \<noteq> CHR ''?'') (takeWhile (\<lambda>c. c \<noteq> CHR ''#'') u))"

section \<open>The browser controller\<close>

text \<open>
  A deployment as the data model has it, and the part of the page the controller reads
  and writes: the value of the \<open>project-list\<close> selector, the \<open>innerHTML\<close> of the
  \<open>deployments\<close> panel (\<open>None\<close> when \<open>getElementById\<close> finds no such element), and what
  \<open>console.error\<close> has logged.
\<close>

record deployment =
  domains :: "string list"
  status :: string
  updatedAt :: string

record page =
  project_list :: "string option"
  deployments_panel :: "string option"
  console :: "js_error list"

text \<open>\<open>domains[0]\<close> is \<open>undefined\<close> for an empty array; a template prints that as text.\<close>

definition first_domain :: "deployment \<Rightarrow> string option" where
  "first_domain d = (case domains d of [] \<Rightarrow> None | x # _ \<Rightarrow> Some x)"

definition template_text :: "string option \<Rightarrow> string" where
  "template_text v = (case v of None \<Rightarrow> ''undefined'' | Some s \<Rightarrow> s)"

definition or_pending :: "string option \<Rightarrow> string" where
  "or_pending v =
     (case v of None \<Rightarrow> ''URL pending...'' | Some s \<Rightarrow> if s = [] then ''URL pending...'' else s)"

text \<open>The template literal of \<open>setDeployments\<close>, with its line breaks and indentation.\<close>

definition deployment_line :: "deployment \<Rightarrow> string" where
  \<open>deployment_line d =
     ''<div class="deployment-line">\<newline>        <a href="https://'' @ template_text (first_domain d)
     @ ''" target="_blank">\<newline>          '' @ or_pending (first_domain d)
     @ ''\<newline>        </a>\<newline>        <span class="timestamp">\<newline>          <span class="status ''
     @ status d @ ''">'' @ status d @ ''</span>\<newline>          '' @ updatedAt d
     @ ''\<newline>        </span>\<newline>      </div>''\<close>

definition placeholder :: string where
  "placeholder = ''<p>No deployments for this project.</p>''"

text \<open>
  \<open>setDeployments\<close>. The argument is the parsed response body: \<open>None\<close> for \<open>null\<close> or
  \<open>undefined\<close>, otherwise an array of deployments. The only write is the assignment to
  \<open>innerHTML\<close>, the last statement of either branch; it throws when the element is missing.
\<close>

definition setDeployments :: "deployment list option \<Rightarrow> page \<Rightarrow> js_error + page" where
  "setDeployments deployments p =
     (let html = (case deployments of
                    None \<Rightarrow> placeholder
                  | Some ds \<Rightarrow> if length ds < 1 then placeholder
                             else foldl (\<lambda>html d. html @ deployment_line d) [] ds)
      in case deployments_panel p of
           None \<Rightarrow> Inl (TypeError ''Cannot set properties of null (setting 'innerHTML')'')
         | Some _ \<Rightarrow> Inr (p\<lparr>deployments_panel := Some html\<rparr>))"

definition getProjectId :: "page \<Rightarrow> js_error + string" where
  "getProjectId p =
     (case project_list p of
        None \<Rightarrow> Inl (TypeError ''Cannot read properties of null (reading 'value')'')
      | Some v \<Rightarrow> Inr v)"

text \<open>
  The response of the browser's \<open>fetch\<close>, as far as \<open>pollData\<close> uses it: the outcome of
  \<open>dr.json()\<close>. The network is a parameter: for a URL, a rejection or a response.
\<close>

record response =
  json :: "js_error + deployment list option"

text \<open>
  \<open>pollData\<close>: the project id is read outside the \<open>try\<close> block; whatever the block
  throws is logged by \<open>console.error\<close> and not thrown again. The result is the
  outcome for the caller and the page afterwards.
\<close>

definition pollData :: "(string \<Rightarrow> js_error + response) \<Rightarrow> page \<Rightarrow> (js_error + unit) \<times> page" where
  "pollData net p =
     (case getProjectId p of
        Inl e \<Rightarrow> (Inl e, p)
      | Inr projectId \<Rightarrow>
          (let attempt =
                 (case net (''/deployments?projectId='' @ projectId) of
                    Inl e \<Rightarrow> Inl e
                  | Inr dr \<Rightarrow>
                      (case json dr of
                         Inl e \<Rightarrow> Inl e
                       | Inr deployments \<Rightarrow> setDeployments deployments p))
           in case attempt of
                Inl e \<Rightarrow> (Inr (), p\<lparr>console := console p @ [e]\<rparr>)
              | Inr p' \<Rightarrow> (Inr (), p')))"

section \<open>Shapes of strings used to state the properties\<close>

text \<open>
  Where \<open>remove_slash_before_params\<close> finds something to drop: some slash of the string
  stands immediately before \<open>?\<close>, before \<open>&\<close>, or before \<open>#\<close> and one more character
  other than \<open>!\<close>.
\<close>

fun slash_before_param :: "string \<Rightarrow> bool" where
  "slash_before_param (c # d # r) =
     (if c = CHR ''/'' \<and> (d = CHR ''?'' \<or> d = CHR ''&'') then True
      else if c = CHR ''/'' \<and> d = CHR ''#'' \<and> r \<noteq> [] \<and> hd r \<noteq> CHR ''!'' then True
      else slash_before_param (d # r))"
| "slash_before_param s = False"

text \<open>
  The string ends with two slashes. And: a leading scheme, if there is one, is followed
  by exactly two slashes, or by exactly three when the string starts with \<open>file:///\<close>.
\<close>

definition ends_with_two_slashes :: "string \<Rightarrow> bool" where
  "ends_with_two_slashes s = (take 2 (rev s) = ''//'')"

definition protocol_normalised :: "string \<Rightarrow> bool" where
  "protocol_normalised s =
     (if takeWhile not_sep s = [] then True
      else (case dropWhile not_sep s of
              [] \<Rightarrow> True
            | c # r \<Rightarrow> if c = CHR '':''
                       then takeWhile is_slash r = (if is_file_url s then ''///'' else ''//'')
                       else True))"

text \<open>A client as \<open>new Client()\<close> builds it with the default endpoint.\<close>

definition default_client :: Client where
  "default_client =
     \<lparr>accessToken = ''token'', orgId = ''org'',
      clientOptions = \<lparr>endpoint = Some ''https://api.deno.com/v1''\<rparr>\<rparr>"

section \<open>Calls evaluated on given inputs\<close>

text \<open>
  C2, as the code computes it: \<open>urlJoin("http://a", "b?x=1", "c?y=2")\<close> returns
  \<open>"http://a/b?x=1/c&y=2"\<close>. The segments are joined with single slashes in the order
  given, so the query of the second segment stays where it is; the second \<open>?\<close> becomes
  \<open>&\<close> and only the first \<open>?\<close> is kept.
\<close>

theorem urlJoin_query_example:
  "urlJoin_strings [''http://a'', ''b?x=1'', ''c?y=2''] = Inr ''http://a/b?x=1/c&y=2''"
  by code_simp

text \<open>The result is not the string \<open>"http://a/b/c?x=1&y=2"\<close> that C2 states.\<close>

theorem urlJoin_query_example_counterexample:
  "urlJoin_strings [''http://a'', ''b?x=1'', ''c?y=2''] \<noteq> Inr ''http://a/b/c?x=1&y=2''"
  by code_simp

text \<open>
  C10: \<open>urlJoin()\<close> and \<open>urlJoin([])\<close> return the empty string without throwing, and
  leave their arguments as they are.
\<close>

theorem urlJoin_empty:
  "urlJoin [] = ([], Inr []) \<and> urlJoin [JArr []] = ([JArr []], Inr [])"
  by code_simp

text \<open>
  C4, at the input \<open>urlJoin("http:", null)\<close>: the first segment is a plain protocol, so
  the second one is appended to it as text before the loop checks the types; the call
  returns \<open>"http://null"\<close> and throws nothing.
\<close>

theorem urlJoin_null_after_protocol:
  "urlJoin [JStr ''http:'', JNull] = ([JStr ''http:'', JNull], Inr ''http://null'')"
  by code_simp

text \<open>
  For every client, URL and options, \<open>fetchUrl\<close> makes the call that \<open>fetch\<close> makes:
  to the URL joined to the endpoint.
\<close>

lemma fetchUrl_url:
  "map_sum id url (fetchUrl c u options) = snd (urlJoin [endpoint_value c, JStr u])"
  by (simp add: fetchUrl_def fetch_def split: sum.splits)

text \<open>
  C1, at the default endpoint and a page link of the API: \<open>fetchUrl\<close> passes the URL
  to \<open>fetch\<close>, which joins it to the endpoint, so the request goes to the endpoint
  followed by the whole URL and not to the URL itself.
\<close>

theorem fetchUrl_joins_endpoint:
  "fetchUrl default_client ''https://api.deno.com/v1/projects?page=2'' None =
     Inr \<lparr>url = ''https://api.deno.com/v1/https://api.deno.com/v1/projects?page=2'',
          init = \<lparr>http_method = None,
                  headers = Some [(''Authorization'', ''Bearer token''),
                                  (''Content-Type'', ''application/json'')],
                  body = None\<rparr>\<rparr>"
  by code_simp

section \<open>The joiner on strings, and where it throws\<close>

text \<open>
  Called with strings only, \<open>urlJoin\<close> returns a string and leaves its arguments as they
  are.
\<close>

lemma js_split_nonempty: "js_split c s \<noteq> []"
  by (induction s) (auto split: list.splits)

lemma merge_protocol_strings:
  "snd (merge_protocol s (map JStr ss)) = map JStr (if is_plain_protocol s then tl ss else ss)"
  by (cases ss) simp_all

lemma normalize_loop_strings: "\<not> isl (normalize_loop n i (map JStr ss) acc)"
  by (induction ss arbitrary: i acc) auto

lemma normalize_strings_returns: "\<not> isl (snd (normalize_url (map JStr ss)))"
proof (cases ss)
  case Nil
  then show ?thesis by simp
next
  case (Cons s rest)
  obtain first tail where m: "merge_protocol s (map JStr rest) = (first, tail)"
    by (cases "merge_protocol s (map JStr rest)")
  then have "tail = map JStr (if is_plain_protocol s then tl rest else rest)"
    using merge_protocol_strings [of s rest] by simp
  then obtain ts where ts: "tail = map JStr ts" by blast
  from Cons m ts show ?thesis by (simp add: isl_map_sum normalize_loop_strings)
qed

lemma normalize_strings: "\<exists>r. snd (normalize_url (map JStr ss)) = Inr r"
  using normalize_strings_returns [of ss] by (cases "snd (normalize_url (map JStr ss))") simp_all

lemma urlJoin_strings_args: "urlJoin (map JStr ss) = (map JStr ss, snd (normalize_url (map JStr ss)))"
  by (cases ss) (simp_all add: urlJoin_def arg0_def)

lemma urlJoin_strings_returns: "\<exists>r. urlJoin (map JStr ss) = (map JStr ss, Inr r)"
  using normalize_strings [of ss] by (auto simp: urlJoin_strings_args)

text \<open>
  After a first segment that is a string but not a plain protocol, any later element
  that is not a string makes the loop throw a \<open>TypeError\<close>; so does a first argument
  that is neither a string nor of type \<open>"object"\<close>.
\<close>

lemma normalize_loop_throws:
  "\<exists>v \<in> set cs. typeof v \<noteq> ''string'' \<Longrightarrow>
   \<exists>msg. normalize_loop n i cs acc = Inl (TypeError msg)"
proof (induction cs arbitrary: i acc)
  case Nil
  then show ?case by simp
next
  case (Cons c cs)
  show ?case
  proof (cases c)
    case (JStr s)
    with Cons.prems have "\<exists>v \<in> set cs. typeof v \<noteq> ''string''" by simp
    from Cons.IH [OF this] JStr show ?thesis by simp
  qed simp_all
qed

lemma urlJoin_throws_without_protocol:
  assumes "\<not> is_plain_protocol s" and "\<exists>v \<in> set rest. typeof v \<noteq> ''string''"
  shows "\<exists>msg. snd (urlJoin (JStr s # rest)) = Inl (TypeError msg)"
proof -
  from assms(2) obtain v vs where rest: "rest = v # vs" by (cases rest) auto
  obtain msg where "normalize_loop (Suc (length rest)) (Suc 0) rest
      (if fix_protocol s = [] then [] else [trim_component (Suc (length rest)) 0 (fix_protocol s)])
      = Inl (TypeError msg)"
    using normalize_loop_throws [OF assms(2)] by blast
  with assms(1) rest show ?thesis
    by (auto simp: urlJoin_def arg0_def)
qed

lemma urlJoin_throws_first_not_string:
  assumes "typeof v \<noteq> ''string''" and "typeof v \<noteq> ''object''"
  shows "\<exists>msg. snd (urlJoin (v # rest)) = Inl (TypeError msg)"
  using assms by (cases v) (simp_all add: urlJoin_def arg0_def)

section \<open>Joining the result again\<close>

text \<open>Each step of \<open>normalize\<close> leaves a string of the matching shape as it is.\<close>

lemma remove_slash_fixed:
  "\<not> slash_before_param s \<Longrightarrow> remove_slash_before_params s = s"
  by (induction s rule: remove_slash_before_params.induct) (auto split: if_splits)

lemma merge_parts_fixed:
  "count_list s c \<le> 1 \<Longrightarrow>
   (case js_split c s of [] \<Rightarrow> u | p # parts \<Rightarrow> p @ (if length parts > 0 then [c] else []) @ js_join sep parts) = s"
proof (induction s)
  case Nil
  then show ?case by simp
next
  case (Cons x xs)
  show ?case
  proof (cases "x = c")
    case True
    with Cons.prems have "count_list xs c = 0" by simp
    then have "c \<notin> set xs" by (simp add: count_list_0_iff)
    then have "js_split c xs = [xs]"
      by (induction xs) (auto split: list.splits)
    with True show ?thesis by simp
  next
    case False
    with Cons.prems have "count_list xs c \<le> 1" by simp
    from Cons.IH [OF this] False show ?thesis
      by (auto simp: js_split_nonempty split: list.splits)
  qed
qed

lemma merge_query_fixed: "count_list s CHR ''?'' \<le> 1 \<Longrightarrow> merge_query s = s"
  using merge_parts_fixed [of s "CHR ''?''" "''undefined''" "''&''"]
  by (simp add: merge_query_def)

lemma collapse_trailing_fixed:
  "\<not> ends_with_two_slashes s \<Longrightarrow> collapse_trailing s = s"
proof (cases "rev s")
  case Nil
  then show ?thesis by (simp add: collapse_trailing_def)
next
  case (Cons c t)
  assume a: "\<not> ends_with_two_slashes s"
  from Cons have s: "s = rev t @ [c]" by (metis rev_rev_ident rev.simps(2))
  show ?thesis
  proof (cases "is_slash c")
    case False
    with s show ?thesis by (simp add: collapse_trailing_def)
  next
    case True
    with a Cons have "dropWhile is_slash t = t"
      by (cases t) (auto simp: ends_with_two_slashes_def is_slash_def)
    with True s show ?thesis
      by (simp add: collapse_trailing_def strip_trailing_def is_slash_def)
  qed
qed

lemma fix_protocol_fixed: "protocol_normalised s \<Longrightarrow> fix_protocol s = s"
proof -
  assume a: "protocol_normalised s"
  have split: "takeWhile not_sep s @ dropWhile not_sep s = s" by simp
  show ?thesis
  proof (cases "dropWhile not_sep s")
    case Nil
    then show ?thesis unfolding fix_protocol_def replace_protocol_def Nil by simp
  next
    case (Cons c r)
    have r: "takeWhile is_slash r @ dropWhile is_slash r = r" by simp
    show ?thesis
    proof (cases "takeWhile not_sep s = [] \<or> c \<noteq> CHR '':''")
      case True
      with Cons show ?thesis by (auto simp: fix_protocol_def replace_protocol_def)
    next
      case False
      with a Cons have t: "takeWhile is_slash r = (if is_file_url s then ''///'' else ''//'')"
        by (simp add: protocol_normalised_def)
      have "takeWhile not_sep s @ CHR '':'' # takeWhile is_slash r @ dropWhile is_slash r = s"
        using split Cons False r by simp
      with False Cons t show ?thesis
        by (cases "is_file_url s") (simp_all add: fix_protocol_def replace_protocol_def)
    qed
  qed
qed

lemma urlJoin_fixed_point:
  assumes "count_list r CHR ''?'' \<le> 1"
    and "\<not> slash_before_param r" and "\<not> ends_with_two_slashes r" and "protocol_normalised r"
  shows "urlJoin [JStr r] = ([JStr r], Inr r)"
proof -
  have f: "finish [r] = r"
    using assms by (simp add: finish_def remove_slash_fixed merge_query_fixed)
  have e: "finish [] = []"
    by (simp add: finish_def merge_query_def)
  show ?thesis
    using assms f e
    by (simp add: urlJoin_def arg0_def fix_protocol_fixed trim_component_def
        collapse_trailing_fixed)
qed

text \<open>Called with an array, \<open>urlJoin\<close> changes the array in place.\<close>

lemma urlJoin_array_in_place:
  "urlJoin [JArr [JStr ''http:'', JStr ''a'']] = ([JArr [JStr ''http://a'']], Inr ''http://a'')"
  by code_simp

text \<open>
  C5, as it holds: \<open>urlJoin\<close> is a function of its arguments, and a call with string
  segments changes none of them. When the result \<open>r\<close> of such a call has at most one
  \<open>?\<close>, has no slash immediately before \<open>?\<close>, \<open>&\<close> or \<open>#\<close> and a character other
  than \<open>!\<close>, does not end with two slashes, and has its leading scheme (if any)
  followed by exactly two slashes (three after \<open>file\<close>), then \<open>urlJoin(r)\<close> is \<open>r\<close>.
\<close>

theorem urlJoin_idempotent_on_normal_output:
  assumes "urlJoin_strings ss = Inr r"
    and "count_list r CHR ''?'' \<le> 1"
    and "\<not> slash_before_param r" and "\<not> ends_with_two_slashes r" and "protocol_normalised r"
  shows "urlJoin (map JStr ss) = (map JStr ss, Inr r) \<and> urlJoin [JStr r] = ([JStr r], Inr r)"
proof
  show "urlJoin (map JStr ss) = (map JStr ss, Inr r)"
    using assms(1) urlJoin_strings_returns [of ss] by (auto simp: urlJoin_strings_def)
  show "urlJoin [JStr r] = ([JStr r], Inr r)"
    using assms(2-5) by (rule urlJoin_fixed_point)
qed

theorem urlJoin_idempotent_on_normal_output_witness:
  "urlJoin_strings [''http://a/'', ''/b/'', ''/c?x=1''] = Inr ''http://a/b/c?x=1''
   \<and> count_list ''http://a/b/c?x=1'' CHR ''?'' \<le> 1
   \<and> \<not> slash_before_param ''http://a/b/c?x=1''
   \<and> \<not> ends_with_two_slashes ''http://a/b/c?x=1''
   \<and> protocol_normalised ''http://a/b/c?x=1''
   \<and> urlJoin [JStr ''http://a/b/c?x=1''] = ([JStr ''http://a/b/c?x=1''], Inr ''http://a/b/c?x=1'')"
proof -
  have h1: "urlJoin_strings [''http://a/'', ''/b/'', ''/c?x=1''] = Inr ''http://a/b/c?x=1''"
    by code_simp
  have h2: "count_list ''http://a/b/c?x=1'' CHR ''?'' \<le> 1" by code_simp
  have h3: "\<not> slash_before_param ''http://a/b/c?x=1''" by code_simp
  have h4: "\<not> ends_with_two_slashes ''http://a/b/c?x=1''" by code_simp
  have h5: "protocol_normalised ''http://a/b/c?x=1''" by code_simp
  show ?thesis
    using h1 h2 h3 h4 h5 urlJoin_idempotent_on_normal_output [OF h1 h2 h3 h4 h5] by simp
qed

text \<open>
  At most one \<open>?\<close> in the result is not enough for C5:
  \<open>urlJoin("http://a.com", "/", "?q=1")\<close> is \<open>"http://a.com/?q=1"\<close>, with one \<open>?\<close>, and
  joining that string again gives \<open>"http://a.com?q=1"\<close>.
\<close>

theorem urlJoin_idempotent_counterexample:
  "urlJoin_strings [''http://a.com'', ''/'', ''?q=1''] = Inr ''http://a.com/?q=1''
   \<and> count_list ''http://a.com/?q=1'' CHR ''?'' \<le> 1
   \<and> urlJoin_strings [''http://a.com/?q=1''] = Inr ''http://a.com?q=1''"
  by code_simp

section \<open>The order parameter of the deployments route\<close>

lemma remove_slash_no_slash: "CHR ''/'' \<notin> set s \<Longrightarrow> remove_slash_before_params s = s"
  by (induction s rule: remove_slash_before_params.induct) auto

lemma remove_slash_keeps_tail:
  assumes "CHR ''/'' \<notin> set t" and "t \<noteq> []"
    and "hd t \<noteq> CHR ''?''" and "hd t \<noteq> CHR ''&''" and "hd t \<noteq> CHR ''#''"
  shows "CHR ''#'' \<notin> set z \<Longrightarrow>
         \<exists>z'. remove_slash_before_params (z @ t) = z' @ t \<and> set z' \<subseteq> set z"
proof (induction z rule: length_induct)
  case (1 z)
  obtain t1 t' where t: "t = t1 # t'" using assms(2) by (cases t) auto
  show ?case
  proof (cases z)
    case Nil
    then show ?thesis using assms(1) by (simp add: remove_slash_no_slash)
  next
    case (Cons c z1)
    note zc = Cons
    show ?thesis
    proof (cases z1)
      case Nil
      have "remove_slash_before_params (c # t) = c # t"
      proof (cases t')
        case Nil
        with t assms show ?thesis by simp
      next
        case (Cons t2 t'')
        with t assms show ?thesis by (simp add: remove_slash_no_slash)
      qed
      with zc Nil show ?thesis by auto
    next
      case (Cons d z2)
      note zd = Cons
      have hash: "d \<noteq> CHR ''#''" using "1.prems" zc zd by auto
      obtain e w where ew: "z2 @ t = e # w" using t by (cases z2) auto
      have ih1: "\<exists>z'. remove_slash_before_params (z1 @ t) = z' @ t \<and> set z' \<subseteq> set z1"
        using "1.IH" "1.prems" zc by auto
      have ih2: "\<exists>z'. remove_slash_before_params (z2 @ t) = z' @ t \<and> set z' \<subseteq> set z2"
        using "1.IH" "1.prems" zc zd by auto
      show ?thesis
      proof (cases "c = CHR ''/'' \<and> (d = CHR ''?'' \<or> d = CHR ''&'')")
        case True
        then have "remove_slash_before_params (z @ t) = d # remove_slash_before_params (z2 @ t)"
          using zc zd ew by simp
        with ih2 zc zd show ?thesis by auto
      next
        case False
        then have "remove_slash_before_params (z @ t) = c # remove_slash_before_params (z1 @ t)"
          using zc zd ew hash by auto
        with ih1 zc show ?thesis by auto
      qed
    qed
  qed
qed

lemma set_replace_protocol: "set (replace_protocol sep s) \<subseteq> set s \<union> set sep"
proof -
  have "set (takeWhile not_sep s) \<subseteq> set s" by (auto dest: set_takeWhileD)
  moreover have "set (dropWhile is_slash r) \<subseteq> set s" if "dropWhile not_sep s = c # r" for c r
  proof -
    have "set (dropWhile is_slash r) \<subseteq> set r" by (auto dest: set_dropWhileD)
    moreover have "set r \<subseteq> set (dropWhile not_sep s)" using that by auto
    moreover have "set (dropWhile not_sep s) \<subseteq> set s" by (auto dest: set_dropWhileD)
    ultimately show ?thesis by blast
  qed
  ultimately show ?thesis
    by (auto simp: replace_protocol_def split: list.splits)
qed

lemma set_fix_protocol: "set (fix_protocol s) \<subseteq> set s \<union> {CHR '':'', CHR ''/''}"
  using set_replace_protocol [of "'':///''" s] set_replace_protocol [of "''://''" s]
  by (auto simp: fix_protocol_def)

lemma set_strip_trailing: "set (strip_trailing s) \<subseteq> set s"
  by (auto simp: strip_trailing_def dest: set_dropWhileD)

lemma collapse_trailing_no_slash: "s \<noteq> [] \<Longrightarrow> \<not> is_slash (last s) \<Longrightarrow> collapse_trailing s = s"
  by (simp add: collapse_trailing_def)

lemma plain_protocol_append:
  assumes "is_plain_protocol e" and "p \<noteq> []" and "\<not> is_slash (hd p)"
  shows "\<exists>y. set y \<subseteq> set e \<union> {CHR '':'', CHR ''/''} \<and> fix_protocol (e @ CHR ''/'' # p) = y @ p"
proof -
  from assms(1) obtain r where ne: "takeWhile not_sep e \<noteq> []"
    and d: "dropWhile not_sep e = CHR '':'' # r" and r: "list_all is_slash r"
    by (auto simp: is_plain_protocol_def split: if_splits list.splits)
  have "CHR '':'' \<in> set (dropWhile not_sep e)" using d by simp
  then have colon: "CHR '':'' \<in> set e" by (auto dest: set_dropWhileD)
  have nc: "\<not> not_sep CHR '':''" by (simp add: not_sep_def)
  have tw: "takeWhile not_sep (e @ CHR ''/'' # p) = takeWhile not_sep e"
    using colon nc by (rule takeWhile_append1)
  have dw: "dropWhile not_sep (e @ CHR ''/'' # p) = CHR '':'' # r @ CHR ''/'' # p"
    using dropWhile_append1 [where P = not_sep and xs = e and ys = "CHR ''/'' # p", OF colon nc] d
    by simp
  have "dropWhile is_slash (r @ CHR ''/'' # p) = dropWhile is_slash (CHR ''/'' # p)"
    using r by (intro dropWhile_append2) (simp add: list_all_iff)
  also have "\<dots> = p" using assms(2,3) by (cases p) (simp_all add: is_slash_def)
  finally have ds: "dropWhile is_slash (r @ CHR ''/'' # p) = p" .
  have rp: "replace_protocol sep (e @ CHR ''/'' # p) = (takeWhile not_sep e @ sep) @ p" for sep
    using ne by (simp add: replace_protocol_def tw dw ds)
  have sub: "set (takeWhile not_sep e) \<subseteq> set e" by (auto dest: set_takeWhileD)
  show ?thesis
  proof (cases "is_file_url (e @ CHR ''/'' # p)")
    case True
    then have "fix_protocol (e @ CHR ''/'' # p) = (takeWhile not_sep e @ '':///'') @ p"
      by (simp add: fix_protocol_def rp)
    moreover have "set (takeWhile not_sep e @ '':///'') \<subseteq> set e \<union> {CHR '':'', CHR ''/''}"
      using sub by auto
    ultimately show ?thesis by blast
  next
    case False
    then have "fix_protocol (e @ CHR ''/'' # p) = (takeWhile not_sep e @ ''://'') @ p"
      by (simp add: fix_protocol_def rp)
    moreover have "set (takeWhile not_sep e @ ''://'') \<subseteq> set e \<union> {CHR '':'', CHR ''/''}"
      using sub by auto
    ultimately show ?thesis by blast
  qed
qed

lemma normalize_endpoint_path:
  assumes "p \<noteq> []" and "\<not> is_slash (hd p)" and "\<not> is_slash (last p)"
  shows "\<exists>y. set y \<subseteq> set e \<union> {CHR '':'', CHR ''/''}
             \<and> snd (normalize_url [JStr e, JStr (CHR ''/'' # p)])
                 = Inr (merge_query (remove_slash_before_params (y @ p)))"
proof (cases "is_plain_protocol e")
  case True
  obtain y where y: "set y \<subseteq> set e \<union> {CHR '':'', CHR ''/''}"
    and f: "fix_protocol (e @ CHR ''/'' # p) = y @ p"
    using plain_protocol_append [OF True assms(1,2)] by blast
  have "collapse_trailing (y @ p) = y @ p"
    using assms by (intro collapse_trailing_no_slash) simp_all
  then have "snd (normalize_url [JStr e, JStr (CHR ''/'' # p)])
        = Inr (merge_query (remove_slash_before_params (y @ p)))"
    using True f assms(1) by (simp add: trim_component_def finish_def)
  with y show ?thesis by blast
next
  case False
  have sl: "strip_leading (CHR ''/'' # p) = p"
    using assms(1,2) by (cases p) (simp_all add: strip_leading_def is_slash_def)
  have ct: "collapse_trailing p = p"
    using assms by (intro collapse_trailing_no_slash) simp_all
  show ?thesis
  proof (cases "fix_protocol e = []")
    case True
    with False have "snd (normalize_url [JStr e, JStr (CHR ''/'' # p)])
        = Inr (merge_query (remove_slash_before_params ([] @ p)))"
      by (simp add: trim_component_def finish_def sl ct)
    then show ?thesis by (intro exI [of _ "[]"]) simp
  next
    case ne: False
    let ?y = "strip_trailing (fix_protocol e) @ ''/''"
    from False ne have "snd (normalize_url [JStr e, JStr (CHR ''/'' # p)])
        = Inr (merge_query (remove_slash_before_params (?y @ p)))"
      by (simp add: trim_component_def finish_def sl ct)
    moreover have "set ?y \<subseteq> set e \<union> {CHR '':'', CHR ''/''}"
      using set_strip_trailing [of "fix_protocol e"] set_fix_protocol [of e] by auto
    ultimately show ?thesis by blast
  qed
qed

lemma url_query_tail:
  assumes "CHR ''?'' \<notin> set z" and "CHR ''#'' \<notin> set z" and "CHR ''#'' \<notin> set q"
  shows "url_query (z @ CHR ''?'' # q) = q"
proof -
  have "\<forall>c \<in> set (z @ CHR ''?'' # q). c \<noteq> CHR ''#''"
    using assms by auto
  then have t: "takeWhile (\<lambda>c. c \<noteq> CHR ''#'') (z @ CHR ''?'' # q) = z @ CHR ''?'' # q"
    by (simp only: takeWhile_eq_all_conv)
  have "\<forall>c \<in> set z. c \<noteq> CHR ''?''"
    using assms(1) by auto
  then have "dropWhile (\<lambda>c. c \<noteq> CHR ''?'') z = []"
    by simp
  then have d: "dropWhile (\<lambda>c. c \<noteq> CHR ''?'') (z @ CHR ''?'' # q) = CHR ''?'' # q"
    by (simp add: dropWhile_append3)
  show ?thesis
    unfolding url_query_def t d by simp
qed

lemma searchParams_order_desc: "searchParams (Some [(''order'', ''desc'')]) = ''order=desc''"
  by code_simp

lemma join_endpoint_deployments:
  assumes "CHR ''?'' \<notin> set e" and "CHR ''#'' \<notin> set e"
    and "CHR ''?'' \<notin> set projectId" and "CHR ''#'' \<notin> set projectId"
  shows "\<exists>u. snd (urlJoin [JStr e, JStr (''/projects/'' @ projectId @ ''/deployments?order=desc'')]) = Inr u
           \<and> url_query u = ''order=desc''"
proof -
  let ?z0 = "''projects/'' @ projectId @ ''/deployment''"
  let ?t = "''s?order=desc''"
  let ?p = "?z0 @ ?t"
  have p: "?p \<noteq> []" "\<not> is_slash (hd ?p)" "\<not> is_slash (last ?p)"
    by (simp_all add: is_slash_def)
  obtain y where y: "set y \<subseteq> set e \<union> {CHR '':'', CHR ''/''}"
    and n: "snd (normalize_url [JStr e, JStr (CHR ''/'' # ?p)])
              = Inr (merge_query (remove_slash_before_params (y @ ?p)))"
    using normalize_endpoint_path [OF p] by blast
  have yq: "CHR ''?'' \<notin> set (y @ ?z0)" "CHR ''#'' \<notin> set (y @ ?z0)"
    using y assms by auto
  obtain z' where z': "remove_slash_before_params ((y @ ?z0) @ ?t) = z' @ ?t"
    and sub: "set z' \<subseteq> set (y @ ?z0)"
    using remove_slash_keeps_tail [of ?t "y @ ?z0"] yq(2) by auto
  have zq: "CHR ''?'' \<notin> set z'" "CHR ''#'' \<notin> set z'" using sub yq by auto
  then have "count_list (z' @ ?t) CHR ''?'' \<le> 1"
    by (simp add: count_list_0_iff)
  then have m: "merge_query (z' @ ?t) = z' @ ?t" by (rule merge_query_fixed)
  have "url_query ((z' @ ''s'') @ CHR ''?'' # ''order=desc'') = ''order=desc''"
    using zq by (intro url_query_tail) auto
  then have q: "url_query (z' @ ?t) = ''order=desc''" by simp
  have "snd (urlJoin [JStr e, JStr (''/projects/'' @ projectId @ ''/deployments?order=desc'')])
        = snd (normalize_url [JStr e, JStr (CHR ''/'' # ?p)])"
    by (simp add: urlJoin_def arg0_def)
  also have "\<dots> = Inr (z' @ ?t)" using n z' m by simp
  finally show ?thesis using q by blast
qed

text \<open>
  C9, as it holds: for every request the handler calls \<open>listDeployments\<close> with the
  project id read from the request and the fixed query \<open>{order: "desc"}\<close>, and two
  requests with the same \<open>projectId\<close> parameter lead to the same call, whatever else
  they carry. When neither the endpoint nor the project id contains \<open>?\<close> or \<open>#\<close>, the
  call is a \<open>GET\<close> of a URL whose query is exactly \<open>order=desc\<close>.
\<close>

theorem deployments_route_order:
  "deployments_route shc params =
     listDeployments shc (route_projectId params) (Some [(''order'', ''desc'')])
   \<and> (\<forall>params'. req_query params' ''projectId'' = req_query params ''projectId'' \<longrightarrow>
         deployments_route shc params' = deployments_route shc params)
   \<and> (endpoint (clientOptions shc) = Some e \<and> CHR ''?'' \<notin> set e \<and> CHR ''#'' \<notin> set e
       \<and> CHR ''?'' \<notin> set (route_projectId params) \<and> CHR ''#'' \<notin> set (route_projectId params) \<longrightarrow>
       (\<exists>call. deployments_route shc params = Inr call
          \<and> url_query (url call) = ''order=desc''
          \<and> http_method (init call) = Some ''GET''))"
proof (intro conjI allI impI)
  show "deployments_route shc params =
          listDeployments shc (route_projectId params) (Some [(''order'', ''desc'')])"
    by (simp add: deployments_route_def)
next
  fix params'
  assume "req_query params' ''projectId'' = req_query params ''projectId''"
  then show "deployments_route shc params' = deployments_route shc params"
    by (simp add: deployments_route_def route_projectId_def)
next
  assume a: "endpoint (clientOptions shc) = Some e \<and> CHR ''?'' \<notin> set e \<and> CHR ''#'' \<notin> set e
       \<and> CHR ''?'' \<notin> set (route_projectId params) \<and> CHR ''#'' \<notin> set (route_projectId params)"
  then obtain u where u: "snd (urlJoin [JStr e,
        JStr (''/projects/'' @ route_projectId params @ ''/deployments?order=desc'')]) = Inr u"
    and q: "url_query u = ''order=desc''"
    using join_endpoint_deployments [of e "route_projectId params"] by blast
  from a u q show "\<exists>call. deployments_route shc params = Inr call
          \<and> url_query (url call) = ''order=desc''
          \<and> http_method (init call) = Some ''GET''"
    by (simp add: deployments_route_def listDeployments_def fetch_def endpoint_value_def
        searchParams_order_desc GET_def)
qed

theorem deployments_route_order_witness:
  "deployments_route default_client [(''projectId'', ''abc''), (''order'', ''asc'')] =
     Inr \<lparr>url = ''https://api.deno.com/v1/projects/abc/deployments?order=desc'',
          init = \<lparr>http_method = Some ''GET'',
                  headers = Some [(''Authorization'', ''Bearer token''),
                                  (''Content-Type'', ''application/json'')],
                  body = None\<rparr>\<rparr>
   \<and> url_query ''https://api.deno.com/v1/projects/abc/deployments?order=desc'' = ''order=desc''"
proof -
  have r: "deployments_route default_client [(''projectId'', ''abc''), (''order'', ''asc'')] =
     Inr \<lparr>url = ''https://api.deno.com/v1/projects/abc/deployments?order=desc'',
          init = \<lparr>http_method = Some ''GET'',
                  headers = Some [(''Authorization'', ''Bearer token''),
                                  (''Content-Type'', ''application/json'')],
                  body = None\<rparr>\<rparr>"
    by code_simp
  have h: "endpoint (clientOptions default_client) = Some ''https://api.deno.com/v1''
      \<and> CHR ''?'' \<notin> set ''https://api.deno.com/v1'' \<and> CHR ''#'' \<notin> set ''https://api.deno.com/v1''
      \<and> CHR ''?'' \<notin> set (route_projectId [(''projectId'', ''abc''), (''order'', ''asc'')])
      \<and> CHR ''#'' \<notin> set (route_projectId [(''projectId'', ''abc''), (''order'', ''asc'')])"
    by (simp add: default_client_def route_projectId_def req_query_def)
  show ?thesis
    using r h deployments_route_order [of default_client
        "[(''projectId'', ''abc''), (''order'', ''asc'')]" "''https://api.deno.com/v1''"]
    by auto
qed

text \<open>
  The project id is put into the path as it comes. For the request parameter
  \<open>projectId=p/deployments?order=asc#\<close> the URL requested has the query \<open>order=asc\<close>;
  the fixed \<open>order=desc\<close> ends up behind the \<open>#\<close>, in the fragment, so C9 does not hold
  for every request.
\<close>

theorem deployments_route_order_counterexample:
  "deployments_route default_client [(''projectId'', ''p/deployments?order=asc#'')] =
     Inr \<lparr>url = ''https://api.deno.com/v1/projects/p/deployments?order=asc#/deployments&order=desc'',
          init = \<lparr>http_method = Some ''GET'',
                  headers = Some [(''Authorization'', ''Bearer token''),
                                  (''Content-Type'', ''application/json'')],
                  body = None\<rparr>\<rparr>
   \<and> url_query ''https://api.deno.com/v1/projects/p/deployments?order=asc#/deployments&order=desc''
       = ''order=asc''"
  by code_simp

section \<open>Construction of the client\<close>

text \<open>
  C3: the value resolved for the access token is the constructor argument when one is
  passed and the variable \<open>DEPLOY_ACCESS_TOKEN\<close> of the environment otherwise; likewise
  for the organisation id and \<open>DEPLOY_ORG_ID\<close>. Construction throws exactly when one of
  the two resolved values is missing or is the empty string, and what it throws is an
  \<open>Error\<close>. When it succeeds, the fields \<open>accessToken\<close> and \<open>orgId\<close> hold the resolved
  values, which are not empty.
\<close>

theorem new_Client_throws_iff:
  "isl (new_Client accessToken_arg orgId_arg options environment) =
     (nullish accessToken_arg (environment ''DEPLOY_ACCESS_TOKEN'') = None
      \<or> nullish accessToken_arg (environment ''DEPLOY_ACCESS_TOKEN'') = Some []
      \<or> nullish orgId_arg (environment ''DEPLOY_ORG_ID'') = None
      \<or> nullish orgId_arg (environment ''DEPLOY_ORG_ID'') = Some [])
   \<and> (\<forall>c. new_Client accessToken_arg orgId_arg options environment = Inr c \<longrightarrow>
          nullish accessToken_arg (environment ''DEPLOY_ACCESS_TOKEN'') = Some (accessToken c)
          \<and> nullish orgId_arg (environment ''DEPLOY_ORG_ID'') = Some (orgId c)
          \<and> accessToken c \<noteq> [] \<and> orgId c \<noteq> [])
   \<and> (\<forall>e. new_Client accessToken_arg orgId_arg options environment = Inl e \<longrightarrow>
          (\<exists>msg. e = Error msg))"
  by (auto simp: new_Client_def split: option.splits if_splits)

text \<open>
  With nothing passed and an empty environment construction throws; with a token passed
  and no organisation id anywhere it throws; with the token passed and the organisation
  id in the environment it succeeds and stores both values.
\<close>

theorem new_Client_throws_iff_witness:
  "isl (new_Client None None None Map.empty)
   \<and> isl (new_Client (Some ''t'') None None Map.empty)
   \<and> new_Client (Some ''t'') None None [''DEPLOY_ORG_ID'' \<mapsto> ''o''] =
       Inr \<lparr>accessToken = ''t'', orgId = ''o'',
            clientOptions = \<lparr>endpoint = Some ''https://api.deno.com/v1''\<rparr>\<rparr>"
  using new_Client_throws_iff [of None None None Map.empty]
    new_Client_throws_iff [of "Some ''t''" None None Map.empty]
  by (simp add: nullish_def new_Client_def assign_options_def)

text \<open>
  C8: an empty string passed as the access token makes construction throw the token
  error whatever the environment holds, and an empty string passed as the organisation
  id makes it throw as well. The environment is read for a value only when the argument
  is not passed: with an argument given, changing the variable changes nothing.
\<close>

theorem new_Client_empty_argument:
  "new_Client (Some []) orgId_arg options environment =
     Inl (Error ''A Deno Deploy access token is required (or set DEPLOY_ACCESS_TOKEN env variable).'')
   \<and> isl (new_Client accessToken_arg (Some []) options environment)
   \<and> new_Client (Some a) orgId_arg options (environment(''DEPLOY_ACCESS_TOKEN'' := v)) =
       new_Client (Some a) orgId_arg options environment
   \<and> new_Client accessToken_arg (Some b) options (environment(''DEPLOY_ORG_ID'' := w)) =
       new_Client accessToken_arg (Some b) options environment"
  by (auto simp: new_Client_def nullish_def split: option.splits)

text \<open>The same with both variables set to non-empty values.\<close>

theorem new_Client_empty_argument_witness:
  "isl (new_Client (Some []) (Some ''o'')  None
          [''DEPLOY_ACCESS_TOKEN'' \<mapsto> ''t'', ''DEPLOY_ORG_ID'' \<mapsto> ''o''])
   \<and> isl (new_Client (Some ''t'') (Some []) None
          [''DEPLOY_ACCESS_TOKEN'' \<mapsto> ''t'', ''DEPLOY_ORG_ID'' \<mapsto> ''o''])"
  using new_Client_empty_argument [of "Some ''o''" None
      "[''DEPLOY_ACCESS_TOKEN'' \<mapsto> ''t'', ''DEPLOY_ORG_ID'' \<mapsto> ''o'']" "Some ''t''"]
  by simp

section \<open>The deployments panel\<close>

lemma foldl_deployment_line:
  "foldl (\<lambda>html d. html @ deployment_line d) acc ds = acc @ concat (map deployment_line ds)"
  by (induction ds arbitrary: acc) simp_all

lemma deployment_line_opens:
  \<open>take 29 (deployment_line d) = ''<div class="deployment-line">''\<close>
  by (simp add: deployment_line_def)

lemma deployment_line_div: "\<exists>t. deployment_line d = CHR ''<'' # CHR ''d'' # t"
  by (simp add: deployment_line_def)

lemma concat_lines_div:
  assumes "ds \<noteq> []"
  shows "\<exists>t. concat (map deployment_line ds) = CHR ''<'' # CHR ''d'' # t"
proof (cases ds)
  case Nil
  with assms show ?thesis by simp
next
  case (Cons d rest)
  obtain t where "deployment_line d = CHR ''<'' # CHR ''d'' # t"
    using deployment_line_div by blast
  with Cons show ?thesis by simp
qed

text \<open>
  C7: on a page that has the panel, an absent list and an empty list both set the
  panel's content to the paragraph with the placeholder text. A non-empty list sets it to
  the lines of its deployments, one after the other in the order of the list: one line
  for each deployment, and a content that is neither the placeholder nor empty.
\<close>

theorem setDeployments_content:
  assumes "deployments_panel p = Some old"
  shows "setDeployments None p =
           Inr (p\<lparr>deployments_panel := Some ''<p>No deployments for this project.</p>''\<rparr>)
    \<and> setDeployments (Some []) p =
           Inr (p\<lparr>deployments_panel := Some ''<p>No deployments for this project.</p>''\<rparr>)
    \<and> (ds \<noteq> [] \<longrightarrow>
         setDeployments (Some ds) p =
           Inr (p\<lparr>deployments_panel := Some (concat (map deployment_line ds))\<rparr>)
         \<and> length (map deployment_line ds) = length ds
         \<and> concat (map deployment_line ds) \<noteq> ''<p>No deployments for this project.</p>''
         \<and> concat (map deployment_line ds) \<noteq> [])"
proof (intro conjI impI)
  show "setDeployments None p =
          Inr (p\<lparr>deployments_panel := Some ''<p>No deployments for this project.</p>''\<rparr>)"
    using assms by (simp add: setDeployments_def placeholder_def)
  show "setDeployments (Some []) p =
          Inr (p\<lparr>deployments_panel := Some ''<p>No deployments for this project.</p>''\<rparr>)"
    using assms by (simp add: setDeployments_def placeholder_def)
next
  assume ne: "ds \<noteq> []"
  then have "\<not> length ds < 1" by (cases ds) simp_all
  then show "setDeployments (Some ds) p =
               Inr (p\<lparr>deployments_panel := Some (concat (map deployment_line ds))\<rparr>)"
    using assms by (simp add: setDeployments_def foldl_deployment_line)
  show "length (map deployment_line ds) = length ds" by simp
  obtain t where t: "concat (map deployment_line ds) = CHR ''<'' # CHR ''d'' # t"
    using concat_lines_div [OF ne] by blast
  show "concat (map deployment_line ds) \<noteq> ''<p>No deployments for this project.</p>''"
    unfolding t by simp
  show "concat (map deployment_line ds) \<noteq> []"
    unfolding t by simp
qed

theorem setDeployments_content_witness:
  "setDeployments (Some [])
      \<lparr>project_list = Some ''p1'', deployments_panel = Some ''old'', console = []\<rparr>
     = Inr \<lparr>project_list = Some ''p1'',
            deployments_panel = Some ''<p>No deployments for this project.</p>'', console = []\<rparr>
   \<and> setDeployments
        (Some [\<lparr>domains = [''a.deno.dev''], status = ''success'', updatedAt = ''2024''\<rparr>])
        \<lparr>project_list = Some ''p1'', deployments_panel = Some ''old'', console = []\<rparr>
     = Inr \<lparr>project_list = Some ''p1'',
            deployments_panel = Some (deployment_line
              \<lparr>domains = [''a.deno.dev''], status = ''success'', updatedAt = ''2024''\<rparr>),
            console = []\<rparr>"
  using setDeployments_content
    [of "\<lparr>project_list = Some ''p1'', deployments_panel = Some ''old'', console = []\<rparr>" "''old''"
      "[\<lparr>domains = [''a.deno.dev''], status = ''success'', updatedAt = ''2024''\<rparr>]"]
  by simp

text \<open>
  C6: in a poll that reads a project id and whose request is rejected, or whose response
  body fails to parse, \<open>pollData\<close> returns normally; the error is added to what the
  console has logged, nothing else of the page changes, and so the panel's content is
  what it was before the poll.
\<close>

theorem pollData_failure:
  assumes "project_list p = Some projectId"
    and "net (''/deployments?projectId='' @ projectId) = Inl e
         \<or> (\<exists>dr. net (''/deployments?projectId='' @ projectId) = Inr dr \<and> json dr = Inl e)"
  shows "pollData net p = (Inr (), p\<lparr>console := console p @ [e]\<rparr>)
         \<and> deployments_panel (snd (pollData net p)) = deployments_panel p"
  using assms by (auto simp: pollData_def getProjectId_def)

theorem pollData_failure_witness:
  "pollData (\<lambda>u. Inl (TypeError ''Failed to fetch''))
      \<lparr>project_list = Some ''p1'', deployments_panel = Some ''<p>old</p>'', console = []\<rparr>
   = (Inr (), \<lparr>project_list = Some ''p1'', deployments_panel = Some ''<p>old</p>'',
               console = [TypeError ''Failed to fetch'']\<rparr>)
   \<and> pollData (\<lambda>u. Inr \<lparr>json = Inl (SyntaxError ''Unexpected token'')\<rparr>)
      \<lparr>project_list = Some ''p1'', deployments_panel = Some ''<p>old</p>'', console = []\<rparr>
   = (Inr (), \<lparr>project_list = Some ''p1'', deployments_panel = Some ''<p>old</p>'',
               console = [SyntaxError ''Unexpected token'']\<rparr>)"
  using pollData_failure
    [of "\<lparr>project_list = Some ''p1'', deployments_panel = Some ''<p>old</p>'', console = []\<rparr>"
      "''p1''" "\<lambda>u. Inl (TypeError ''Failed to fetch'')" "TypeError ''Failed to fetch''"]
    pollData_failure
    [of "\<lparr>project_list = Some ''p1'', deployments_panel = Some ''<p>old</p>'', console = []\<rparr>"
      "''p1''" "\<lambda>u. Inr \<lparr>json = Inl (SyntaxError ''Unexpected token'')\<rparr>"
      "SyntaxError ''Unexpected token''"]
  by simp

end
